theory Spec2Isabelle
  imports Main
begin

section \<open>Termination handler: pkg/termination/termination.go\<close>

subsection \<open>Errors\<close>

text \<open>
  Go errors as values. \<open>Underlying\<close> is an error produced by a library the handler calls
  (net/http, io, the Kubernetes client); the two context errors are the values of
  \<open>context.Canceled\<close> and \<open>context.DeadlineExceeded\<close>; every other constructor is one
  \<open>fmt.Errorf\<close> of the handler, holding the arguments of its format string.
\<close>

datatype err =
    Underlying string
  | ContextCanceled
  | ContextDeadlineExceeded
  | CouldNotCreateRequest string err
  | CouldNotGetURL string err
  | FailedToReadBody err
  | ErrorPollingEndpoint err
  | ErrorMarkingNode err
  | ErrorFetchingNode err
  | ErrorUpdatingNodeStatus

subsection \<open>The HTTP exchange of one endpoint check\<close>

text \<open>
  What the outside world answers to one call of \<open>checkTerminationEndpoint\<close>:
  whether \<open>http.NewRequest\<close> fails, what \<open>http.DefaultClient.Do\<close> returns (a response,
  or an error with or without a response), and what \<open>io.ReadAll\<close> of the body returns.
\<close>

datatype ReadAll = ReadOk string | ReadErr err

record Response =
  StatusCode :: int
  Body :: ReadAll

datatype DoResult = DoOk Response | DoErr "Response option" err

record Exchange =
  NewRequest :: "err option"
  Do :: DoResult

text \<open>
  \<open>checkTerminationEndpoint\<close> (lines 148-178). The Go function returns the pair
  \<open>(bool, error)\<close>; the pair is kept, a nil error being \<open>None\<close>.
\<close>

definition checkTerminationEndpoint :: "string \<Rightarrow> Exchange \<Rightarrow> bool \<times> err option" where
  "checkTerminationEndpoint pollURL x =
     (case NewRequest x of
        Some e \<Rightarrow> (False, Some (CouldNotCreateRequest pollURL e))
      | None \<Rightarrow>
         (case Do x of
            DoErr resp e \<Rightarrow> (False, Some (CouldNotGetURL pollURL e))
          | DoOk resp \<Rightarrow>
             (case Body resp of
                ReadErr e \<Rightarrow> (False, Some (FailedToReadBody e))
              | ReadOk respBody \<Rightarrow>
                 (if respBody = ''TRUE'' then (True, None) else (False, None)))))"

subsection \<open>Node conditions\<close>

text \<open>
  \<open>corev1.NodeCondition\<close>: the condition type and status are Go string types, the two
  times are \<open>metav1.Time\<close>, modelled as a number of seconds.
\<close>

record NodeCondition =
  Type :: string
  Status :: string
  LastHeartbeatTime :: nat
  LastTransitionTime :: nat
  Reason :: string
  Message :: string

text \<open>Of \<open>corev1.Node\<close> the handler reads the name and \<open>Status.Conditions\<close>.\<close>

record Node =
  Name :: string
  Conditions :: "NodeCondition list"

definition terminatingConditionType :: string where
  "terminatingConditionType = ''Terminating''"

definition terminationRequestedReason :: string where
  "terminationRequestedReason = ''TerminationRequested''"

definition ConditionTrue :: string where
  "ConditionTrue = ''True''"

text \<open>\<open>nodeHasTerminationCondition\<close> (lines 195-202): the loop over the conditions.\<close>

fun hasTerminationCondition :: "NodeCondition list \<Rightarrow> bool" where
  "hasTerminationCondition [] = False"
| "hasTerminationCondition (condition # rest) =
     (if Type condition = terminatingConditionType then True
      else hasTerminationCondition rest)"

definition nodeHasTerminationCondition :: "Node \<Rightarrow> bool" where
  "nodeHasTerminationCondition node = hasTerminationCondition (Conditions node)"

text \<open>The condition built at lines 208-215 from \<open>metav1.Now()\<close>.\<close>

definition terminatingCondition :: "nat \<Rightarrow> NodeCondition" where
  "terminatingCondition now =
     \<lparr> Type = terminatingConditionType,
       Status = ConditionTrue,
       LastHeartbeatTime = now,
       LastTransitionTime = now,
       Reason = terminationRequestedReason,
       Message = ''The cloud provider has marked this instance for termination'' \<rparr>"

text \<open>
  The loop of lines 225-241: \<open>conditions\<close> is the slice built so far, each condition of the
  node is appended to it, or the new condition in its place.
\<close>

fun mergeConditions ::
  "NodeCondition \<Rightarrow> NodeCondition list \<Rightarrow> NodeCondition list \<Rightarrow> NodeCondition list" where
  "mergeConditions tc [] conditions = conditions"
| "mergeConditions tc (condition # rest) conditions =
     (if Type condition \<noteq> terminatingConditionType
      then mergeConditions tc rest (conditions @ [condition])
      else if Status condition = ConditionTrue
      then mergeConditions tc rest (conditions @ [condition])
      else mergeConditions tc rest (conditions @ [tc]))"

text \<open>
  \<open>addNodeTerminationCondition\<close> (lines 206-244); \<open>now\<close> is the value of
  \<open>metav1.Now()\<close> at the call, the node is returned updated.
\<close>

definition addNodeTerminationCondition :: "nat \<Rightarrow> Node \<Rightarrow> Node" where
  "addNodeTerminationCondition now node =
     (if \<not> nodeHasTerminationCondition node
      then node\<lparr>Conditions := Conditions node @ [terminatingCondition now]\<rparr>
      else node\<lparr>Conditions := mergeConditions (terminatingCondition now) (Conditions node) []\<rparr>)"

text \<open>The number of conditions of the terminating type a list holds.\<close>

definition terminatingCount :: "NodeCondition list \<Rightarrow> nat" where
  "terminatingCount cs = length (filter (\<lambda>c. Type c = terminatingConditionType) cs)"

subsection \<open>Marking the node\<close>

text \<open>
  What the node store answers to one call of \<open>markNodeForDeletion\<close>: the result of
  \<open>client.Get\<close>, the clock read by \<open>addNodeTerminationCondition\<close>, and the result of
  \<open>client.Status().Update\<close>.
\<close>

record MarkAttempt =
  GetNode :: "err + Node"
  Now :: nat
  UpdateStatus :: "err option"

text \<open>
  \<open>markNodeForDeletion\<close> (lines 180-191): the returned error, and the node the store
  holds after a successful update.
\<close>

definition markNodeForDeletion :: "MarkAttempt \<Rightarrow> err option \<times> Node option" where
  "markNodeForDeletion a =
     (case GetNode a of
        Inl e \<Rightarrow> (Some (ErrorFetchingNode e), None)
      | Inr node \<Rightarrow>
         (case UpdateStatus a of
            Some e \<Rightarrow> (Some ErrorUpdatingNodeStatus, None)
          | None \<Rightarrow> (None, Some (addNodeTerminationCondition (Now a) node))))"

subsection \<open>Polling\<close>

text \<open>
  \<open>wait.PollUntilContextCancel(ctx, interval, true, condition)\<close> of
  k8s.io/apimachinery, as the handler uses it: the condition runs at once, then after
  every tick of the timer, until it returns true or an error, or the context is seen
  done, when \<open>ctx.Err()\<close> is returned. \<open>ticks\<close> is the number of timer ticks served
  before the context is seen done (\<open>None\<close>: it is never done, and the loop may run
  forever), \<open>doneErr\<close> is \<open>ctx.Err()\<close> of the done context, \<open>condition k\<close> is what the
  invocation number \<open>k\<close> of the condition returns. The result holds the returned error,
  the number of invocations made and whether the loop left because the context was done.
\<close>

record PollResult =
  pollErr :: "err option"
  invocations :: nat
  sawDone :: bool

partial_function (option) pollLoop ::
  "nat option \<Rightarrow> err \<Rightarrow> (nat \<Rightarrow> bool \<times> err option) \<Rightarrow> nat \<Rightarrow> PollResult option" where
  "pollLoop ticks doneErr condition k =
     (if ticks = Some 0
      then Some \<lparr>pollErr = Some doneErr, invocations = k, sawDone = True\<rparr>
      else (case condition k of
              (ok, e) \<Rightarrow>
                if e \<noteq> None \<or> ok
                then Some \<lparr>pollErr = e, invocations = Suc k, sawDone = False\<rparr>
                else pollLoop (map_option (\<lambda>n. n - 1) ticks) doneErr condition (Suc k)))"

declare pollLoop.simps [code]

definition PollUntilContextCancel ::
  "nat option \<Rightarrow> err \<Rightarrow> (nat \<Rightarrow> bool \<times> err option) \<Rightarrow> PollResult option" where
  "PollUntilContextCancel ticks doneErr condition =
     (case condition 0 of
        (ok, e) \<Rightarrow>
          if e \<noteq> None \<or> ok
          then Some \<lparr>pollErr = e, invocations = 1, sawDone = False\<rparr>
          else pollLoop ticks doneErr condition 1)"

subsection \<open>The poll loop of the handler\<close>

text \<open>The parent of the context the marking phase runs under (lines 121-129).\<close>

datatype Context = Background | RunContext

text \<open>
  The world one call of \<open>run\<close> meets: the answer to each endpoint check, in order; when
  \<open>ctx\<close> is seen done by the poll loop and with which error; whether \<open>ctx\<close> is done by
  the time line 122 reads \<open>ctx.Err()\<close> although the poll loop did not see it done; the
  answers of the node store to each marking attempt; the number of one-second ticks served
  before the marking context is done, and whether \<open>ctx\<close> is cancelled during the marking.
\<close>

record World =
  endpoint :: "nat \<Rightarrow> Exchange"
  pollTicks :: "nat option"
  ctxDoneErr :: err
  doneBeforeMark :: bool
  markAttempts :: "nat \<Rightarrow> MarkAttempt"
  markTicks :: nat
  doneDuringMark :: bool

text \<open>
  What one call of \<open>run\<close> did: the error it returned, the number of endpoint checks it
  made, the parent of the marking context and the number of marking attempts (when the
  marking phase was reached), and the node the store holds after a successful marking.
\<close>

record RunResult =
  ret :: "err option"
  checks :: nat
  markParent :: "Context option"
  markCalls :: nat
  stored :: "Node option"

text \<open>The condition of the marking poll (lines 135-141): an error is logged, not returned.\<close>

definition markCondition :: "(nat \<Rightarrow> MarkAttempt) \<Rightarrow> nat \<Rightarrow> bool \<times> err option" where
  "markCondition attempts k =
     (case fst (markNodeForDeletion (attempts k)) of
        Some e \<Rightarrow> (False, None)
      | None \<Rightarrow> (True, None))"

text \<open>
  Lines 131-145. The marking context is \<open>context.WithTimeout(tmpctx, 30*time.Second)\<close>
  and the timer ticks every second, so at most 30 ticks are served before it is done; it
  is done with \<open>ctx.Err()\<close> of its parent when the parent is \<open>ctx\<close> and that is done
  first, with \<open>context.DeadlineExceeded\<close> otherwise.
\<close>

definition markPhase :: "World \<Rightarrow> Context \<Rightarrow> nat \<Rightarrow> RunResult option" where
  "markPhase w tmpctx nchecks =
     (case PollUntilContextCancel (Some (min (markTicks w) 30))
             (if tmpctx = RunContext \<and> doneDuringMark w then ctxDoneErr w
              else ContextDeadlineExceeded)
             (markCondition (markAttempts w)) of
        None \<Rightarrow> None
      | Some p \<Rightarrow>
         (case pollErr p of
            Some e \<Rightarrow>
              Some \<lparr>ret = Some (ErrorMarkingNode e), checks = nchecks,
                    markParent = Some tmpctx, markCalls = invocations p, stored = None\<rparr>
          | None \<Rightarrow>
              Some \<lparr>ret = None, checks = nchecks,
                    markParent = Some tmpctx, markCalls = invocations p,
                    stored = snd (markNodeForDeletion (markAttempts w (invocations p - 1)))\<rparr>))"

text \<open>\<open>run\<close> (lines 94-146); \<open>None\<close> when the poll loop never returns.\<close>

definition run :: "string \<Rightarrow> World \<Rightarrow> RunResult option" where
  "run pollURL w =
     (case PollUntilContextCancel (pollTicks w) (ctxDoneErr w)
             (\<lambda>k. checkTerminationEndpoint pollURL (endpoint w k)) of
        None \<Rightarrow> None
      | Some p \<Rightarrow>
         (if pollErr p \<noteq> None \<and> pollErr p \<noteq> Some ContextCanceled
          then (case pollErr p of
                  Some e \<Rightarrow>
                    Some \<lparr>ret = Some (ErrorPollingEndpoint e), checks = invocations p,
                          markParent = None, markCalls = 0, stored = None\<rparr>
                | None \<Rightarrow> None)
          else
            (case checkTerminationEndpoint pollURL (endpoint w (invocations p)) of
               (terminated, Some e) \<Rightarrow>
                 Some \<lparr>ret = Some e, checks = Suc (invocations p),
                       markParent = None, markCalls = 0, stored = None\<rparr>
             | (terminated, None) \<Rightarrow>
                 if \<not> terminated
                 then Some \<lparr>ret = None, checks = Suc (invocations p),
                            markParent = None, markCalls = 0, stored = None\<rparr>
                 else
                   (let ctxErr = (if sawDone p \<or> doneBeforeMark w
                                  then Some (ctxDoneErr w) else None)
                    in if ctxErr = Some ContextCanceled
                       then markPhase w Background (Suc (invocations p))
                       else if ctxErr \<noteq> None
                       then Some \<lparr>ret = ctxErr, checks = Suc (invocations p),
                                  markParent = None, markCalls = 0, stored = None\<rparr>
                       else markPhase w RunContext (Suc (invocations p))))))"

section \<open>Machine reconciler: modelled from the specification\<close>

text \<open>
  The reconciler (\<open>create\<close>, \<open>processTargetPools\<close>) is not among the source files; only
  its tests are. The definitions of this section follow the words of the specification
  (sections 4.3, 4.4, 6 and 7) and the literal values the tests expect.
\<close>

subsection \<open>Errors, conditions and the machine scope\<close>

text \<open>
  Modelled from the spec: the error kinds of section 7 that \<open>create\<close> and
  \<open>processTargetPools\<close> return (the reconciler's error types are not under src/). A
  permanent configuration error carries the status code of the provider error it
  classifies; \<open>GatewayError\<close> is an error of the cloud gateway returned as it is.
\<close>

datatype reconcileError =
    ValidationError string
  | ConfigurationError string
  | TransientError string
  | PermanentConfigurationError int string
  | GatewayError string

text \<open>
  Modelled from the spec: a condition of the provider status (section 3: type, boolean
  status, reason, message); the type \<open>metav1.Condition\<close> is not under src/.
\<close>

record Condition =
  condType :: string
  condStatus :: bool
  condReason :: string
  condMessage :: string

text \<open>
  Modelled from the spec: the constants of the reconciler that the tests name and whose
  values are not under src/: the type of the machine-created condition, the reasons and
  the message of its outcomes.
\<close>

record Constants =
  MachineCreated :: string
  machineCreationSucceedReason :: string
  machineCreationSucceedMessage :: string
  machineCreationFailedReason :: string
  machineValidationFailedReason :: string

text \<open>
  The cluster-id label, \<open>machinev1.MachineClusterIDLabel\<close>: its value is the one the
  expected error of the test quotes (test line 54).
\<close>

definition MachineClusterIDLabel :: string where
  "MachineClusterIDLabel = ''machine.openshift.io/cluster-api-cluster''"

text \<open>
  Modelled from the spec: what \<open>create\<close> and \<open>processTargetPools\<close> read of the machine
  scope the tests build (the type \<open>machineScope\<close> is not under src/): the name and labels
  of the machine, the project, the zone and the target pools of the provider spec, and
  the conditions of the provider status.
\<close>

record machineScope =
  MachineName :: string
  Labels :: "string \<rightharpoonup> string"
  ProjectID :: string
  Zone :: string
  TargetPools :: "string list"
  ProviderConditions :: "Condition list"

subsection \<open>Target pools\<close>

text \<open>
  Modelled from the spec: the instance reference handed to \<open>applyFn\<close> (section 4.4).
  \<open>fmtInstanceSelfLink\<close> is not under src/; its format is the one
  \<open>TestFmtInstanceSelfLink\<close> expects (test lines 518-524).
\<close>

definition fmtInstanceSelfLink :: "string \<Rightarrow> string \<Rightarrow> string \<Rightarrow> string" where
  "fmtInstanceSelfLink project zone name =
     ''https://www.googleapis.com/compute/v1/projects/'' @ project @ ''/zones/'' @ zone
       @ ''/instances/'' @ name"

text \<open>
  Modelled from the spec: the loop of \<open>processTargetPools\<close> (section 4.4), which is not
  under src/. For every configured pool, in order, the current membership is queried;
  \<open>applyFn\<close> is invoked only when it disagrees with \<open>desired\<close>; the first error of a
  query or of \<open>applyFn\<close> aborts and is returned. \<open>g\<close> is the state of the cloud gateway:
  \<open>member g pool\<close> is its answer to the membership query in that state, and \<open>applyFn\<close>
  returns its error and the state it leaves, so that a later query sees what an earlier
  \<open>applyFn\<close> did. The result is the returned error, the pools \<open>applyFn\<close> was invoked
  for, in order, and the state of the gateway at the end.
\<close>

fun targetPoolsLoop ::
  "bool \<Rightarrow> (string \<Rightarrow> string \<Rightarrow> 'g \<Rightarrow> reconcileError option \<times> 'g)
     \<Rightarrow> ('g \<Rightarrow> string \<Rightarrow> reconcileError + bool)
     \<Rightarrow> string \<Rightarrow> string list \<Rightarrow> 'g \<Rightarrow> reconcileError option \<times> string list \<times> 'g" where
  "targetPoolsLoop desired applyFn member instanceRef [] g = (None, [], g)"
| "targetPoolsLoop desired applyFn member instanceRef (pool # rest) g =
     (case member g pool of
        Inl e \<Rightarrow> (Some e, [], g)
      | Inr present \<Rightarrow>
          if present \<noteq> desired
          then (case applyFn pool instanceRef g of
                  (Some e, g') \<Rightarrow> (Some e, [pool], g')
                | (None, g') \<Rightarrow>
                    (case targetPoolsLoop desired applyFn member instanceRef rest g' of
                       (e, calls, g'') \<Rightarrow> (e, pool # calls, g'')))
          else targetPoolsLoop desired applyFn member instanceRef rest g)"

text \<open>
  Modelled from the spec: \<open>processTargetPools\<close> (section 4.4), not under src/: nil at once
  when the target pool list is empty or unset, the loop otherwise.
\<close>

definition processTargetPools ::
  "bool \<Rightarrow> (string \<Rightarrow> string \<Rightarrow> 'g \<Rightarrow> reconcileError option \<times> 'g)
     \<Rightarrow> ('g \<Rightarrow> string \<Rightarrow> reconcileError + bool)
     \<Rightarrow> machineScope \<Rightarrow> 'g \<Rightarrow> reconcileError option \<times> string list \<times> 'g" where
  "processTargetPools desired applyFn member scope g =
     (if TargetPools scope = [] then (None, [], g)
      else targetPoolsLoop desired applyFn member
             (fmtInstanceSelfLink (ProjectID scope) (Zone scope) (MachineName scope))
             (TargetPools scope) g)"

subsection \<open>Creating the instance\<close>

text \<open>
  Modelled from the spec: the validation of \<open>create\<close> (section 4.3), not under src/: every
  target pool name is non-empty, and the cluster-id label is present and non-empty. The
  messages are the ones the tests expect (test lines 47 and 54).
\<close>

definition validateMachine :: "machineScope \<Rightarrow> string option" where
  "validateMachine scope =
     (if \<exists>pool \<in> set (TargetPools scope). pool = []
      then Some ''all target pools must have valid name''
      else (case Labels scope MachineClusterIDLabel of
              None \<Rightarrow> Some (''machine is missing \"'' @ MachineClusterIDLabel @ ''\" label'')
            | Some v \<Rightarrow>
                if v = [] then Some (''machine is missing \"'' @ MachineClusterIDLabel @ ''\" label'')
                else None))"

text \<open>
  Modelled from the spec: the outcome of the gateway's instance insert (sections 4.3 and
  6; the gateway is not under src/): success, a transport or generic error with its text,
  or a provider API error with its numeric status code and its text.
\<close>

datatype InsertOutcome = InsertOk | GenericError string | APIError int string

text \<open>
  Modelled from the spec: the update of the machine-created condition (section 4.3: the
  entry of that type is replaced, not appended), not under src/.
\<close>

fun setCondition :: "Condition \<Rightarrow> Condition list \<Rightarrow> Condition list" where
  "setCondition c [] = [c]"
| "setCondition c (x # xs) =
     (if condType x = condType c then c # xs else x # setCondition c xs)"

text \<open>
  Modelled from the spec: what one call of \<open>create\<close> leaves behind (section 4.3; the
  reconciler is not under src/): the error it returned, the conditions of the provider
  status after it, and the instances handed to the gateway's insert.
\<close>

record 'i CreateResult =
  createErr :: "reconcileError option"
  conditionsAfter :: "Condition list"
  inserted :: "'i list"

text \<open>
  Modelled from the spec: \<open>create\<close> (section 4.3), not under src/. \<open>K\<close> holds the
  constants, \<open>userData\<close> is the answer of the user-data resolver (section 4.1: a
  configuration error or the blob), \<open>build\<close> the instance builder (section 4.2),
  \<open>InstancesInsert\<close> the answer of the gateway to the insert of an instance. A validation failure
  is terminal, makes no cloud call and sets the condition to False with a validation
  reason; after the insert the condition is True with the fixed reason and message, or
  False with the creation-failed reason and the text of the error, the error of a
  provider API error being a permanent configuration error with its status and text. The
  texts of the returned errors are the ones the tests expect (test lines 47, 71, 75, 88).
  The spec gives no condition for a failed user-data resolution: the list is left as it is.
\<close>

definition create ::
  "Constants \<Rightarrow> (reconcileError + string) \<Rightarrow> (machineScope \<Rightarrow> string \<Rightarrow> 'i) \<Rightarrow> ('i \<Rightarrow> InsertOutcome)
     \<Rightarrow> machineScope \<Rightarrow> 'i CreateResult" where
  "create K userData build InstancesInsert scope =
     (case validateMachine scope of
        Some msg \<Rightarrow>
          \<lparr>createErr = Some (ValidationError (''failed validating machine provider spec: '' @ msg)),
            conditionsAfter =
              setCondition \<lparr>condType = MachineCreated K, condStatus = False,
                             condReason = machineValidationFailedReason K, condMessage = msg\<rparr>
                (ProviderConditions scope),
            inserted = []\<rparr>
      | None \<Rightarrow>
         (case userData of
            Inl e \<Rightarrow>
              \<lparr>createErr = Some e, conditionsAfter = ProviderConditions scope, inserted = []\<rparr>
          | Inr blob \<Rightarrow>
             (case InstancesInsert (build scope blob) of
                InsertOk \<Rightarrow>
                  \<lparr>createErr = None,
                    conditionsAfter =
                      setCondition \<lparr>condType = MachineCreated K, condStatus = True,
                                     condReason = machineCreationSucceedReason K,
                                     condMessage = machineCreationSucceedMessage K\<rparr>
                        (ProviderConditions scope),
                    inserted = [build scope blob]\<rparr>
              | GenericError errText \<Rightarrow>
                  \<lparr>createErr =
                      Some (TransientError (''failed to create instance via compute service: '' @ errText)),
                    conditionsAfter =
                      setCondition \<lparr>condType = MachineCreated K, condStatus = False,
                                     condReason = machineCreationFailedReason K,
                                     condMessage = errText\<rparr>
                        (ProviderConditions scope),
                    inserted = [build scope blob]\<rparr>
              | APIError code errText \<Rightarrow>
                  \<lparr>createErr =
                      Some (PermanentConfigurationError code (''error launching instance: '' @ errText)),
                    conditionsAfter =
                      setCondition \<lparr>condType = MachineCreated K, condStatus = False,
                                     condReason = machineCreationFailedReason K,
                                     condMessage = errText\<rparr>
                        (ProviderConditions scope),
                    inserted = [build scope blob]\<rparr>)))"

text \<open>The condition of the machine-created type a list of conditions holds first.\<close>

definition createdCondition :: "Constants \<Rightarrow> Condition list \<Rightarrow> Condition option" where
  "createdCondition K cs = find (\<lambda>c. condType c = MachineCreated K) cs"

section \<open>Properties of the termination handler\<close>

subsection \<open>The endpoint check\<close>

lemma check_response:
  "checkTerminationEndpoint u \<lparr>NewRequest = None, Do = DoOk \<lparr>StatusCode = code, Body = ReadOk b\<rparr>\<rparr>
     = (b = ''TRUE'', None)"
  by (simp add: checkTerminationEndpoint_def)

lemma check_true_no_error:
  "fst (checkTerminationEndpoint u x) \<Longrightarrow> checkTerminationEndpoint u x = (True, None)"
  by (auto simp: checkTerminationEndpoint_def
           split: option.splits DoResult.splits ReadAll.splits if_splits)

text \<open>
  C1. \<open>checkTerminationEndpoint\<close> reports termination exactly when the request was made
  and answered and the body read is the literal \<open>TRUE\<close>; every other body that was read
  (\<open>FALSE\<close> and the empty body among them) gives not terminated and no error; a failure
  to build the request, to get the URL or to read the body gives an error, which is not
  the outcome of a body that was read.
\<close>

theorem checkTerminationEndpoint_true_iff_body_TRUE:
  "(fst (checkTerminationEndpoint u x) \<longleftrightarrow>
      NewRequest x = None \<and> (\<exists>resp. Do x = DoOk resp \<and> Body resp = ReadOk ''TRUE''))
   \<and> (\<forall>resp b. NewRequest x = None \<and> Do x = DoOk resp \<and> Body resp = ReadOk b \<and> b \<noteq> ''TRUE''
         \<longrightarrow> checkTerminationEndpoint u x = (False, None))
   \<and> (NewRequest x \<noteq> None \<or> (\<exists>resp e. Do x = DoErr resp e)
         \<or> (\<exists>resp e. Do x = DoOk resp \<and> Body resp = ReadErr e)
       \<longrightarrow> (\<exists>e. checkTerminationEndpoint u x = (False, Some e)))"
proof (intro conjI)
  show "fst (checkTerminationEndpoint u x) \<longleftrightarrow>
      NewRequest x = None \<and> (\<exists>resp. Do x = DoOk resp \<and> Body resp = ReadOk ''TRUE'')"
    by (auto simp: checkTerminationEndpoint_def
             split: option.splits DoResult.splits ReadAll.splits)
  show "\<forall>resp b. NewRequest x = None \<and> Do x = DoOk resp \<and> Body resp = ReadOk b \<and> b \<noteq> ''TRUE''
         \<longrightarrow> checkTerminationEndpoint u x = (False, None)"
    by (simp add: checkTerminationEndpoint_def)
  show "NewRequest x \<noteq> None \<or> (\<exists>resp e. Do x = DoErr resp e)
         \<or> (\<exists>resp e. Do x = DoOk resp \<and> Body resp = ReadErr e)
       \<longrightarrow> (\<exists>e. checkTerminationEndpoint u x = (False, Some e))"
    by (auto simp: checkTerminationEndpoint_def
             split: option.splits DoResult.splits ReadAll.splits)
qed

theorem checkTerminationEndpoint_true_iff_body_TRUE_witness:
  "checkTerminationEndpoint ''http://169.254.169.254/computeMetadata/v1/instance/preempted''
      \<lparr>NewRequest = None, Do = DoOk \<lparr>StatusCode = 200, Body = ReadOk ''FALSE''\<rparr>\<rparr> = (False, None)
   \<and> checkTerminationEndpoint ''http://169.254.169.254/computeMetadata/v1/instance/preempted''
      \<lparr>NewRequest = None, Do = DoOk \<lparr>StatusCode = 200, Body = ReadOk ''''\<rparr>\<rparr> = (False, None)
   \<and> fst (checkTerminationEndpoint ''http://169.254.169.254/computeMetadata/v1/instance/preempted''
      \<lparr>NewRequest = None, Do = DoOk \<lparr>StatusCode = 200, Body = ReadOk ''TRUE''\<rparr>\<rparr>)
   \<and> (\<exists>e. checkTerminationEndpoint ''http://169.254.169.254/computeMetadata/v1/instance/preempted''
      \<lparr>NewRequest = None, Do = DoErr None (Underlying ''connection refused'')\<rparr> = (False, Some e))"
proof -
  let ?u = "''http://169.254.169.254/computeMetadata/v1/instance/preempted''"
  let ?ok = "\<lambda>b. \<lparr>NewRequest = None, Do = DoOk \<lparr>StatusCode = 200, Body = ReadOk b\<rparr>\<rparr>"
  let ?down = "\<lparr>NewRequest = None, Do = DoErr None (Underlying ''connection refused'')\<rparr>"
  have "checkTerminationEndpoint ?u (?ok ''FALSE'') = (False, None)"
    using checkTerminationEndpoint_true_iff_body_TRUE [of ?u "?ok ''FALSE''"] by simp
  moreover have "checkTerminationEndpoint ?u (?ok '''') = (False, None)"
    using checkTerminationEndpoint_true_iff_body_TRUE [of ?u "?ok ''''"] by simp
  moreover have "fst (checkTerminationEndpoint ?u (?ok ''TRUE''))"
    using checkTerminationEndpoint_true_iff_body_TRUE [of ?u "?ok ''TRUE''"] by simp
  moreover have "\<exists>e. checkTerminationEndpoint ?u ?down = (False, Some e)"
    using checkTerminationEndpoint_true_iff_body_TRUE [of ?u ?down] by simp
  ultimately show ?thesis by simp
qed

text \<open>
  C10. \<open>checkTerminationEndpoint\<close> does not read the status code of the response: a
  response whose body is \<open>TRUE\<close> gives \<open>(true, nil)\<close> and one with any other body gives
  \<open>(false, nil)\<close>, whatever the status code; putting another status code into the
  response of an exchange does not change the result; and an error is returned only when
  the request could not be built, the URL could not be got or the body could not be read.
\<close>

theorem checkTerminationEndpoint_ignores_status_code:
  "checkTerminationEndpoint u
      \<lparr>NewRequest = None, Do = DoOk \<lparr>StatusCode = code, Body = ReadOk b\<rparr>\<rparr> = (b = ''TRUE'', None)
   \<and> checkTerminationEndpoint u
        (x\<lparr>Do := (case Do x of DoOk resp \<Rightarrow> DoOk (resp\<lparr>StatusCode := code\<rparr>)
                              | DoErr resp e \<Rightarrow> DoErr resp e)\<rparr>)
       = checkTerminationEndpoint u x
   \<and> (snd (checkTerminationEndpoint u x) \<noteq> None \<longleftrightarrow>
        NewRequest x \<noteq> None \<or> (\<exists>resp e. Do x = DoErr resp e)
          \<or> (\<exists>resp e. Do x = DoOk resp \<and> Body resp = ReadErr e))"
proof (intro conjI)
  show "checkTerminationEndpoint u
      \<lparr>NewRequest = None, Do = DoOk \<lparr>StatusCode = code, Body = ReadOk b\<rparr>\<rparr> = (b = ''TRUE'', None)"
    by (rule check_response)
  show "checkTerminationEndpoint u
        (x\<lparr>Do := (case Do x of DoOk resp \<Rightarrow> DoOk (resp\<lparr>StatusCode := code\<rparr>)
                              | DoErr resp e \<Rightarrow> DoErr resp e)\<rparr>)
       = checkTerminationEndpoint u x"
    by (simp add: checkTerminationEndpoint_def split: option.splits DoResult.splits)
  show "snd (checkTerminationEndpoint u x) \<noteq> None \<longleftrightarrow>
        NewRequest x \<noteq> None \<or> (\<exists>resp e. Do x = DoErr resp e)
          \<or> (\<exists>resp e. Do x = DoOk resp \<and> Body resp = ReadErr e)"
    by (auto simp: checkTerminationEndpoint_def
             split: option.splits DoResult.splits ReadAll.splits)
qed

theorem checkTerminationEndpoint_ignores_status_code_witness:
  "checkTerminationEndpoint ''http://169.254.169.254/computeMetadata/v1/instance/preempted''
      \<lparr>NewRequest = None, Do = DoOk \<lparr>StatusCode = 500, Body = ReadOk ''TRUE''\<rparr>\<rparr> = (True, None)
   \<and> checkTerminationEndpoint ''http://169.254.169.254/computeMetadata/v1/instance/preempted''
      \<lparr>NewRequest = None, Do = DoOk \<lparr>StatusCode = 404, Body = ReadOk ''Not Found''\<rparr>\<rparr> = (False, None)
   \<and> snd (checkTerminationEndpoint ''http://169.254.169.254/computeMetadata/v1/instance/preempted''
      \<lparr>NewRequest = None,
        Do = DoOk \<lparr>StatusCode = 200, Body = ReadErr (Underlying ''unexpected EOF'')\<rparr>\<rparr>) \<noteq> None"
proof -
  let ?u = "''http://169.254.169.254/computeMetadata/v1/instance/preempted''"
  let ?cut = "\<lparr>NewRequest = None,
        Do = DoOk \<lparr>StatusCode = 200, Body = ReadErr (Underlying ''unexpected EOF'')\<rparr>\<rparr>"
  have "checkTerminationEndpoint ?u
      \<lparr>NewRequest = None, Do = DoOk \<lparr>StatusCode = 500, Body = ReadOk ''TRUE''\<rparr>\<rparr> = (True, None)"
    using checkTerminationEndpoint_ignores_status_code [of ?u 500 "''TRUE''" ?cut] by simp
  moreover have "checkTerminationEndpoint ?u
      \<lparr>NewRequest = None, Do = DoOk \<lparr>StatusCode = 404, Body = ReadOk ''Not Found''\<rparr>\<rparr> = (False, None)"
    using checkTerminationEndpoint_ignores_status_code [of ?u 404 "''Not Found''" ?cut] by simp
  moreover have "snd (checkTerminationEndpoint ?u ?cut) \<noteq> None"
    using checkTerminationEndpoint_ignores_status_code [of ?u 200 "''TRUE''" ?cut] by simp
  ultimately show ?thesis by simp
qed

subsection \<open>Marking the node\<close>

lemma mergeConditions_map:
  "mergeConditions tc cs acc =
     acc @ map (\<lambda>c. if Type c = terminatingConditionType \<and> Status c \<noteq> ConditionTrue then tc else c) cs"
  by (induction cs arbitrary: acc) auto

lemma hasTerminationCondition_iff:
  "hasTerminationCondition cs \<longleftrightarrow> (\<exists>c \<in> set cs. Type c = terminatingConditionType)"
  by (induction cs) auto

lemma hasTerminationCondition_count:
  "hasTerminationCondition cs \<longleftrightarrow> 0 < terminatingCount cs"
  by (induction cs) (auto simp: terminatingCount_def)

lemma terminatingCondition_fields:
  "Type (terminatingCondition now) = terminatingConditionType"
  "Status (terminatingCondition now) = ConditionTrue"
  by (simp_all add: terminatingCondition_def)

lemma terminatingCount_map:
  "terminatingCount (map (\<lambda>c. if Type c = terminatingConditionType \<and> Status c \<noteq> ConditionTrue
                                then terminatingCondition now else c) cs) = terminatingCount cs"
  by (induction cs) (auto simp: terminatingCount_def terminatingCondition_fields)

lemma conditions_add:
  "Conditions (addNodeTerminationCondition now node) =
     (if nodeHasTerminationCondition node
      then map (\<lambda>c. if Type c = terminatingConditionType \<and> Status c \<noteq> ConditionTrue
                     then terminatingCondition now else c) (Conditions node)
      else Conditions node @ [terminatingCondition now])"
  by (simp add: addNodeTerminationCondition_def mergeConditions_map)

lemma count_add:
  "terminatingCount (Conditions (addNodeTerminationCondition now node)) =
     max 1 (terminatingCount (Conditions node))"
proof (cases "nodeHasTerminationCondition node")
  case True
  then have "0 < terminatingCount (Conditions node)"
    by (simp add: nodeHasTerminationCondition_def hasTerminationCondition_count)
  with True show ?thesis
    by (simp add: conditions_add terminatingCount_map)
next
  case False
  then have "terminatingCount (Conditions node) = 0"
    by (simp add: nodeHasTerminationCondition_def hasTerminationCondition_count)
  with False show ?thesis
    by (simp add: conditions_add) (simp add: terminatingCount_def terminatingCondition_fields)
qed

lemma has_after_add:
  "nodeHasTerminationCondition (addNodeTerminationCondition now node)"
  using count_add [of now node]
  by (simp add: nodeHasTerminationCondition_def hasTerminationCondition_count)

lemma settled_map:
  "\<forall>c \<in> set cs. Type c = terminatingConditionType \<longrightarrow> Status c = ConditionTrue \<Longrightarrow>
   map (\<lambda>c. if Type c = terminatingConditionType \<and> Status c \<noteq> ConditionTrue then tc else c) cs = cs"
  by (induction cs) auto

lemma settled_after_add:
  "\<forall>c \<in> set (Conditions (addNodeTerminationCondition now node)).
      Type c = terminatingConditionType \<longrightarrow> Status c = ConditionTrue"
  by (auto simp: conditions_add terminatingCondition_fields nodeHasTerminationCondition_def
        hasTerminationCondition_iff)

lemma add_twice:
  "addNodeTerminationCondition now' (addNodeTerminationCondition now node) =
     addNodeTerminationCondition now node"
proof -
  let ?n = "addNodeTerminationCondition now node"
  have "Conditions (addNodeTerminationCondition now' ?n) = Conditions ?n"
    using has_after_add [of now node] settled_after_add [of now node]
    by (simp add: conditions_add [of now' ?n] settled_map)
  moreover have "Name (addNodeTerminationCondition now' ?n) = Name ?n"
    by (simp add: addNodeTerminationCondition_def)
  ultimately show ?thesis by simp
qed

text \<open>
  C2, as amended. Marking a node leaves as many conditions of the terminating type as
  the node had, and one when it had none; marking a marked node again, at any later
  time, changes nothing. So a node with at most one such condition has exactly one after
  two markings. When the node has such a condition, each one whose status is not
  \<open>True\<close> is replaced, where it stands, by a \<open>True\<close> condition with both times set to
  the time of the marking, and every other condition, a terminating one with status
  \<open>True\<close> among them, is left as it is; when it has none, the new condition is appended.
\<close>

theorem addNodeTerminationCondition_merge:
  "terminatingCount (Conditions (addNodeTerminationCondition now node)) =
     max 1 (terminatingCount (Conditions node))
   \<and> addNodeTerminationCondition now' (addNodeTerminationCondition now node) =
       addNodeTerminationCondition now node
   \<and> (terminatingCount (Conditions node) \<le> 1 \<longrightarrow>
        terminatingCount
          (Conditions (addNodeTerminationCondition now' (addNodeTerminationCondition now node))) = 1)
   \<and> (nodeHasTerminationCondition node \<longrightarrow>
        Conditions (addNodeTerminationCondition now node) =
          map (\<lambda>c. if Type c = terminatingConditionType \<and> Status c \<noteq> ConditionTrue
                    then terminatingCondition now else c) (Conditions node))
   \<and> (\<not> nodeHasTerminationCondition node \<longrightarrow>
        Conditions (addNodeTerminationCondition now node) =
          Conditions node @ [terminatingCondition now])
   \<and> Name (addNodeTerminationCondition now node) = Name node"
proof (intro conjI impI)
  show "terminatingCount (Conditions (addNodeTerminationCondition now node)) =
          max 1 (terminatingCount (Conditions node))"
    by (rule count_add)
  show "addNodeTerminationCondition now' (addNodeTerminationCondition now node) =
          addNodeTerminationCondition now node"
    by (rule add_twice)
  show "terminatingCount
          (Conditions (addNodeTerminationCondition now' (addNodeTerminationCondition now node))) = 1"
    if "terminatingCount (Conditions node) \<le> 1"
    using that by (simp add: add_twice count_add)
  show "Conditions (addNodeTerminationCondition now node) =
          map (\<lambda>c. if Type c = terminatingConditionType \<and> Status c \<noteq> ConditionTrue
                    then terminatingCondition now else c) (Conditions node)"
    if "nodeHasTerminationCondition node"
    using that by (simp add: conditions_add)
  show "Conditions (addNodeTerminationCondition now node) =
          Conditions node @ [terminatingCondition now]"
    if "\<not> nodeHasTerminationCondition node"
    using that by (simp add: conditions_add)
  show "Name (addNodeTerminationCondition now node) = Name node"
    by (simp add: addNodeTerminationCondition_def)
qed

theorem addNodeTerminationCondition_merge_witness:
  "terminatingCount
     (Conditions
       (addNodeTerminationCondition 9
         (addNodeTerminationCondition 5
           \<lparr>Name = ''node-1'',
             Conditions =
               [\<lparr>Type = ''Ready'', Status = ''True'', LastHeartbeatTime = 1,
                  LastTransitionTime = 1, Reason = ''KubeletReady'', Message = ''ok''\<rparr>,
                \<lparr>Type = ''Terminating'', Status = ''False'', LastHeartbeatTime = 2,
                  LastTransitionTime = 2, Reason = ''r'', Message = ''m''\<rparr>]\<rparr>))) = 1
   \<and> Conditions
       (addNodeTerminationCondition 5
         \<lparr>Name = ''node-1'',
           Conditions =
             [\<lparr>Type = ''Ready'', Status = ''True'', LastHeartbeatTime = 1,
                LastTransitionTime = 1, Reason = ''KubeletReady'', Message = ''ok''\<rparr>,
              \<lparr>Type = ''Terminating'', Status = ''False'', LastHeartbeatTime = 2,
                LastTransitionTime = 2, Reason = ''r'', Message = ''m''\<rparr>]\<rparr>)
     = [\<lparr>Type = ''Ready'', Status = ''True'', LastHeartbeatTime = 1,
          LastTransitionTime = 1, Reason = ''KubeletReady'', Message = ''ok''\<rparr>,
        terminatingCondition 5]
   \<and> Conditions (addNodeTerminationCondition 5 \<lparr>Name = ''node-2'', Conditions = []\<rparr>)
     = [terminatingCondition 5]"
proof -
  let ?marked = "\<lparr>Name = ''node-1'',
           Conditions =
             [\<lparr>Type = ''Ready'', Status = ''True'', LastHeartbeatTime = 1,
                LastTransitionTime = 1, Reason = ''KubeletReady'', Message = ''ok''\<rparr>,
              \<lparr>Type = ''Terminating'', Status = ''False'', LastHeartbeatTime = 2,
                LastTransitionTime = 2, Reason = ''r'', Message = ''m''\<rparr>]\<rparr>"
  let ?fresh = "\<lparr>Name = ''node-2'', Conditions = []\<rparr>"
  have one: "terminatingCount (Conditions ?marked) \<le> 1"
    by (simp add: terminatingCount_def terminatingConditionType_def)
  have has: "nodeHasTerminationCondition ?marked"
    by (simp add: nodeHasTerminationCondition_def terminatingConditionType_def)
  have none: "\<not> nodeHasTerminationCondition ?fresh"
    by (simp add: nodeHasTerminationCondition_def)
  note first = addNodeTerminationCondition_merge [of 5 ?marked 9]
  note second = addNodeTerminationCondition_merge [of 5 ?fresh 9]
  have twice: "terminatingCount
      (Conditions (addNodeTerminationCondition 9 (addNodeTerminationCondition 5 ?marked))) = 1"
    using first one by (elim conjE) (erule (1) mp)
  have "Conditions (addNodeTerminationCondition 5 ?marked) =
      map (\<lambda>c. if Type c = terminatingConditionType \<and> Status c \<noteq> ConditionTrue
                then terminatingCondition 5 else c) (Conditions ?marked)"
    using first has by (elim conjE) (erule (1) mp)
  then have replaced: "Conditions (addNodeTerminationCondition 5 ?marked) =
      [\<lparr>Type = ''Ready'', Status = ''True'', LastHeartbeatTime = 1,
          LastTransitionTime = 1, Reason = ''KubeletReady'', Message = ''ok''\<rparr>,
        terminatingCondition 5]"
    by (simp add: terminatingConditionType_def ConditionTrue_def)
  have "Conditions (addNodeTerminationCondition 5 ?fresh) =
      Conditions ?fresh @ [terminatingCondition 5]"
    using second none by (elim conjE) (erule (1) mp)
  then have appended: "Conditions (addNodeTerminationCondition 5 ?fresh) = [terminatingCondition 5]"
    by simp
  from twice replaced appended show ?thesis by (intro conjI)
qed

text \<open>
  The claim C2 as it is written fails on a node that already holds two conditions of
  the terminating type: both are kept.
\<close>

theorem addNodeTerminationCondition_keeps_duplicates:
  "terminatingCount
     (Conditions
       (addNodeTerminationCondition 2
         (addNodeTerminationCondition 1
           \<lparr>Name = ''node-1'',
             Conditions = [terminatingCondition 0, terminatingCondition 0]\<rparr>))) = 2"
  by (simp add: addNodeTerminationCondition_def nodeHasTerminationCondition_def
      terminatingCount_def terminatingCondition_def terminatingConditionType_def
      ConditionTrue_def)

subsection \<open>The poll loop\<close>

lemma pollLoop_done:
  "(\<And>j. k \<le> j \<Longrightarrow> j < k + n \<Longrightarrow> condition j = (False, None)) \<Longrightarrow>
   pollLoop (Some n) d condition k =
     Some \<lparr>pollErr = Some d, invocations = k + n, sawDone = True\<rparr>"
proof (induction n arbitrary: k)
  case 0
  show ?case by (subst pollLoop.simps) simp
next
  case (Suc n)
  have "condition k = (False, None)" using Suc.prems [of k] by simp
  moreover have "pollLoop (Some n) d condition (Suc k) =
      Some \<lparr>pollErr = Some d, invocations = Suc k + n, sawDone = True\<rparr>"
    using Suc.prems by (intro Suc.IH) simp_all
  ultimately show ?case by (subst pollLoop.simps) simp
qed

lemma pollLoop_returns: "\<exists>p. pollLoop (Some n) d condition k = Some p"
proof (induction n arbitrary: k)
  case 0
  show ?case by (subst pollLoop.simps) simp
next
  case (Suc n)
  obtain p where "pollLoop (Some n) d condition (Suc k) = Some p" using Suc.IH by blast
  then show ?case by (subst pollLoop.simps) (simp split: prod.splits)
qed

lemma Poll_done:
  assumes "\<And>j. j \<le> n \<Longrightarrow> condition j = (False, None)"
  shows "PollUntilContextCancel (Some n) d condition =
     Some \<lparr>pollErr = Some d, invocations = Suc n, sawDone = True\<rparr>"
proof -
  have "condition 0 = (False, None)" using assms by simp
  moreover have "pollLoop (Some n) d condition 1 =
     Some \<lparr>pollErr = Some d, invocations = 1 + n, sawDone = True\<rparr>"
    using assms by (intro pollLoop_done) simp
  ultimately show ?thesis by (simp add: PollUntilContextCancel_def)
qed

lemma Poll_returns: "\<exists>p. PollUntilContextCancel (Some n) d condition = Some p"
  using pollLoop_returns [of n d condition 1]
  by (auto simp: PollUntilContextCancel_def split: prod.splits)

lemma markPhase_returns:
  "\<exists>r. markPhase w c k = Some r \<and> checks r = k \<and> markParent r = Some c"
proof -
  obtain p where "PollUntilContextCancel (Some (min (markTicks w) 30))
             (if c = RunContext \<and> doneDuringMark w then ctxDoneErr w
              else ContextDeadlineExceeded)
             (markCondition (markAttempts w)) = Some p"
    using Poll_returns by blast
  then show ?thesis
    by (cases "pollErr p") (simp_all add: markPhase_def)
qed

text \<open>
  C3. When \<open>ctx\<close> is cancelled and seen done after \<open>n\<close> ticks, every check made by the
  poll loop (the immediate one and one per tick) having reported not terminated, the
  poll returns \<open>context.Canceled\<close> after \<open>n + 1\<close> checks and \<open>run\<close> returns, having made
  exactly one check more. If that check reports not terminated, \<open>run\<close> returns nil and
  the marking phase is not entered; if it reports terminated, the marking context is
  made from \<open>context.Background()\<close>, not from the cancelled context.
\<close>

theorem run_cancelled_checks_once_more:
  assumes ticks: "pollTicks w = Some n"
      and canc: "ctxDoneErr w = ContextCanceled"
      and polls: "\<forall>k\<le>n. checkTerminationEndpoint u (endpoint w k) = (False, None)"
  shows "PollUntilContextCancel (pollTicks w) (ctxDoneErr w)
             (\<lambda>k. checkTerminationEndpoint u (endpoint w k)) =
           Some \<lparr>pollErr = Some ContextCanceled, invocations = Suc n, sawDone = True\<rparr>
       \<and> (\<exists>r. run u w = Some r \<and> checks r = Suc (Suc n)
            \<and> (checkTerminationEndpoint u (endpoint w (Suc n)) = (False, None) \<longrightarrow>
                 ret r = None \<and> markParent r = None \<and> markCalls r = 0 \<and> stored r = None)
            \<and> (fst (checkTerminationEndpoint u (endpoint w (Suc n))) \<longrightarrow>
                 markParent r = Some Background))"
proof -
  let ?cond = "\<lambda>k. checkTerminationEndpoint u (endpoint w k)"
  have poll: "PollUntilContextCancel (pollTicks w) (ctxDoneErr w) ?cond =
      Some \<lparr>pollErr = Some ContextCanceled, invocations = Suc n, sawDone = True\<rparr>"
    unfolding ticks canc using polls by (intro Poll_done) simp
  obtain t e where fin: "checkTerminationEndpoint u (endpoint w (Suc n)) = (t, e)"
    by (cases "checkTerminationEndpoint u (endpoint w (Suc n))")
  show ?thesis
  proof (cases e)
    case (Some er)
    then have "\<not> t" using fin check_true_no_error [of u "endpoint w (Suc n)"] by auto
    with Some fin poll show ?thesis by (simp add: run_def)
  next
    case None
    show ?thesis
    proof (cases t)
      case False
      with None fin poll show ?thesis by (simp add: run_def)
    next
      case True
      obtain r where r: "markPhase w Background (Suc (Suc n)) = Some r"
        "checks r = Suc (Suc n)" "markParent r = Some Background"
        using markPhase_returns by blast
      with True None fin poll canc show ?thesis by (simp add: run_def)
    qed
  qed
qed

theorem run_cancelled_checks_once_more_witness:
  "run ''http://169.254.169.254/computeMetadata/v1/instance/preempted''
     \<lparr>endpoint = (\<lambda>k. \<lparr>NewRequest = None,
                         Do = DoOk \<lparr>StatusCode = 200, Body = ReadOk ''FALSE''\<rparr>\<rparr>),
       pollTicks = Some 2, ctxDoneErr = ContextCanceled, doneBeforeMark = False,
       markAttempts = (\<lambda>k. \<lparr>GetNode = Inr \<lparr>Name = ''node-1'', Conditions = []\<rparr>, Now = 7,
                             UpdateStatus = None\<rparr>),
       markTicks = 30, doneDuringMark = False\<rparr>
   = Some \<lparr>ret = None, checks = 4, markParent = None, markCalls = 0, stored = None\<rparr>"
proof -
  let ?u = "''http://169.254.169.254/computeMetadata/v1/instance/preempted''"
  let ?w = "\<lparr>endpoint = (\<lambda>k. \<lparr>NewRequest = None,
                         Do = DoOk \<lparr>StatusCode = 200, Body = ReadOk ''FALSE''\<rparr>\<rparr>),
       pollTicks = Some 2, ctxDoneErr = ContextCanceled, doneBeforeMark = False,
       markAttempts = (\<lambda>k. \<lparr>GetNode = Inr \<lparr>Name = ''node-1'', Conditions = []\<rparr>, Now = 7,
                             UpdateStatus = None\<rparr>),
       markTicks = 30, doneDuringMark = False\<rparr>"
  have ticks: "pollTicks ?w = Some 2" by simp
  have canc: "ctxDoneErr ?w = ContextCanceled" by simp
  have polls: "\<forall>k\<le>2. checkTerminationEndpoint ?u (endpoint ?w k) = (False, None)"
    by (simp add: checkTerminationEndpoint_def)
  have final: "checkTerminationEndpoint ?u (endpoint ?w (Suc 2)) = (False, None)"
    by (simp add: checkTerminationEndpoint_def)
  from run_cancelled_checks_once_more [OF ticks canc polls] final
  obtain r where "run ?u ?w = Some r" "checks r = 4" "ret r = None" "markParent r = None"
    "markCalls r = 0" "stored r = None"
    by auto
  then show ?thesis by simp
qed

section \<open>Properties of the reconciler as the specification describes it\<close>

subsection \<open>Target pools\<close>

lemma targetPoolsLoop_append:
  "targetPoolsLoop desired applyFn member ref (xs @ ys) g =
     (case targetPoolsLoop desired applyFn member ref xs g of
        (Some e, calls, g') \<Rightarrow> (Some e, calls, g')
      | (None, calls, g') \<Rightarrow>
          (case targetPoolsLoop desired applyFn member ref ys g' of
             (e', calls', g'') \<Rightarrow> (e', calls @ calls', g'')))"
proof (induction xs arbitrary: g)
  case Nil
  show ?case by (simp split: prod.splits)
next
  case (Cons pool xs)
  show ?case
  proof (cases "member g pool")
    case (Inl e)
    then show ?thesis by simp
  next
    case (Inr present)
    show ?thesis
    proof (cases "present = desired")
      case True
      with Inr Cons.IH [of g] show ?thesis by simp
    next
      case False
      obtain r h where ap: "applyFn pool ref g = (r, h)" by (cases "applyFn pool ref g")
      show ?thesis
      proof (cases r)
        case (Some e)
        with ap Inr False show ?thesis by simp
      next
        case None
        with ap Inr False Cons.IH [of h] show ?thesis
          by (simp split: prod.splits option.splits)
      qed
    qed
  qed
qed

lemma targetPoolsLoop_nil:
  "(\<And>h p. p \<in> set pools \<Longrightarrow> \<exists>b. member h p = Inr b) \<Longrightarrow>
   (\<And>h p ref. p \<in> set pools \<Longrightarrow> fst (applyFn p ref h) = None) \<Longrightarrow>
   fst (targetPoolsLoop desired applyFn member ref pools g) = None"
proof (induction pools arbitrary: g)
  case Nil
  show ?case by simp
next
  case (Cons pool pools)
  obtain present where pr: "member g pool = Inr present" using Cons.prems(1) [of pool g] by auto
  obtain h where ap: "applyFn pool ref g = (None, h)"
    using Cons.prems(2) [of pool ref g] by (cases "applyFn pool ref g") auto
  have ih: "fst (targetPoolsLoop desired applyFn member ref pools k) = None" for k
    using Cons.prems by (intro Cons.IH) auto
  show ?case
  proof (cases "present = desired")
    case True
    with pr ih [of g] show ?thesis by simp
  next
    case False
    obtain e calls k where lp: "targetPoolsLoop desired applyFn member ref pools h = (e, calls, k)"
      by (cases "targetPoolsLoop desired applyFn member ref pools h") auto
    with ih [of h] have "e = None" by simp
    with False pr ap lp show ?thesis by simp
  qed
qed

lemma targetPoolsLoop_once:
  assumes q: "\<And>h p. p \<in> set pools \<Longrightarrow> \<exists>b. member h p = Inr b"
      and a: "\<And>h p ref. p \<in> set pools \<Longrightarrow> fst (applyFn p ref h) = None"
      and f: "\<And>h p ref x. p \<in> set pools \<Longrightarrow>
                member (snd (applyFn p ref h)) x = (if x = p then Inr desired else member h x)"
  shows "(\<forall>x. count_list (fst (snd (targetPoolsLoop desired applyFn member ref pools g))) x =
             (if x \<in> set pools \<and> member g x = Inr (\<not> desired) then 1 else 0))
       \<and> (\<forall>x. member (snd (snd (targetPoolsLoop desired applyFn member ref pools g))) x =
             (if x \<in> set pools then Inr desired else member g x))"
  using assms
proof (induction pools arbitrary: g)
  case Nil
  show ?case by simp
next
  case (Cons pool pools)
  obtain present where pr: "member g pool = Inr present" using Cons.prems(1) [of pool g] by auto
  have ih: "(\<forall>x. count_list (fst (snd (targetPoolsLoop desired applyFn member ref pools k))) x =
             (if x \<in> set pools \<and> member k x = Inr (\<not> desired) then 1 else 0))
       \<and> (\<forall>x. member (snd (snd (targetPoolsLoop desired applyFn member ref pools k))) x =
             (if x \<in> set pools then Inr desired else member k x))" for k
    using Cons.prems by (intro Cons.IH) auto
  show ?case
  proof (cases "present = desired")
    case True
    with pr ih [of g] show ?thesis by auto
  next
    case False
    obtain h where ap: "applyFn pool ref g = (None, h)"
      using Cons.prems(2) [of pool ref g] by (cases "applyFn pool ref g") auto
    have fr: "member h x = (if x = pool then Inr desired else member g x)" for x
      using Cons.prems(3) [of pool ref g x] ap by simp
    from False pr have dis: "member g pool = Inr (\<not> desired)" by auto
    obtain e calls k where lp: "targetPoolsLoop desired applyFn member ref pools h = (e, calls, k)"
      by (cases "targetPoolsLoop desired applyFn member ref pools h") auto
    from ih [of h] lp
    have cnt: "count_list calls x =
        (if x \<in> set pools \<and> member h x = Inr (\<not> desired) then 1 else 0)"
      and fin: "member k x = (if x \<in> set pools then Inr desired else member h x)" for x
      by simp_all
    have res: "targetPoolsLoop desired applyFn member ref (pool # pools) g = (e, pool # calls, k)"
      using pr False ap lp by simp
    show ?thesis
      unfolding res using cnt fin fr dis by auto
  qed
qed

lemma processTargetPools_loop:
  "processTargetPools desired applyFn member scope g =
     targetPoolsLoop desired applyFn member
       (fmtInstanceSelfLink (ProjectID scope) (Zone scope) (MachineName scope))
       (TargetPools scope) g"
  by (simp add: processTargetPools_def)

text \<open>
  C7, as amended. With an empty or unset target pool list \<open>processTargetPools\<close> returns
  nil and never invokes \<open>applyFn\<close>. For one configured pool: when its membership agrees
  with \<open>desired\<close>, \<open>applyFn\<close> is not invoked and nil is returned; when it disagrees,
  \<open>applyFn\<close> is invoked exactly once, with the pool and the self link of the instance,
  and its error is returned; when the query fails, its error is returned and \<open>applyFn\<close>
  is not invoked. For a list, the entries are processed in order, each against the state
  the earlier ones left, and the first error ends the loop. When no query and no
  \<open>applyFn\<close> of a configured pool fails, nil is returned. When moreover \<open>applyFn\<close> brings
  the membership of its pool to \<open>desired\<close> and changes no other, it is invoked exactly
  once for every configured pool whose membership disagreed at the start, and not at all
  for any other pool.
\<close>

theorem processTargetPools_applies_on_disagreement:
  "(TargetPools scope = [] \<longrightarrow>
      processTargetPools desired applyFn member scope g = (None, [], g))
   \<and> (member g pool = Inr desired \<longrightarrow>
        processTargetPools desired applyFn member (scope\<lparr>TargetPools := [pool]\<rparr>) g = (None, [], g))
   \<and> (member g pool = Inr (\<not> desired) \<longrightarrow>
        processTargetPools desired applyFn member (scope\<lparr>TargetPools := [pool]\<rparr>) g =
          (fst (applyFn pool
                  (fmtInstanceSelfLink (ProjectID scope) (Zone scope) (MachineName scope)) g),
           [pool],
           snd (applyFn pool
                  (fmtInstanceSelfLink (ProjectID scope) (Zone scope) (MachineName scope)) g)))
   \<and> (member g pool = Inl err \<longrightarrow>
        processTargetPools desired applyFn member (scope\<lparr>TargetPools := [pool]\<rparr>) g =
          (Some err, [], g))
   \<and> processTargetPools desired applyFn member (scope\<lparr>TargetPools := xs @ ys\<rparr>) g =
        (case processTargetPools desired applyFn member (scope\<lparr>TargetPools := xs\<rparr>) g of
           (Some e, calls, g') \<Rightarrow> (Some e, calls, g')
         | (None, calls, g') \<Rightarrow>
             (case processTargetPools desired applyFn member (scope\<lparr>TargetPools := ys\<rparr>) g' of
                (e', calls', g'') \<Rightarrow> (e', calls @ calls', g'')))
   \<and> ((\<forall>h. \<forall>p \<in> set (TargetPools scope).
           (\<exists>b. member h p = Inr b) \<and> (\<forall>ref. fst (applyFn p ref h) = None))
        \<longrightarrow> fst (processTargetPools desired applyFn member scope g) = None)
   \<and> ((\<forall>h. \<forall>p \<in> set (TargetPools scope).
           (\<exists>b. member h p = Inr b)
           \<and> (\<forall>ref. fst (applyFn p ref h) = None
                 \<and> (\<forall>x. member (snd (applyFn p ref h)) x =
                          (if x = p then Inr desired else member h x))))
        \<longrightarrow> fst (processTargetPools desired applyFn member scope g) = None
            \<and> (\<forall>x. count_list (fst (snd (processTargetPools desired applyFn member scope g))) x =
                  (if x \<in> set (TargetPools scope) \<and> member g x = Inr (\<not> desired)
                   then 1 else 0)))"
proof (intro conjI impI)
  let ?ref = "fmtInstanceSelfLink (ProjectID scope) (Zone scope) (MachineName scope)"
  show "processTargetPools desired applyFn member scope g = (None, [], g)"
    if "TargetPools scope = []"
    using that by (simp add: processTargetPools_def)
  show "processTargetPools desired applyFn member (scope\<lparr>TargetPools := [pool]\<rparr>) g = (None, [], g)"
    if "member g pool = Inr desired"
    using that by (simp add: processTargetPools_loop)
  show "processTargetPools desired applyFn member (scope\<lparr>TargetPools := [pool]\<rparr>) g =
          (fst (applyFn pool ?ref g), [pool], snd (applyFn pool ?ref g))"
    if "member g pool = Inr (\<not> desired)"
    using that by (simp add: processTargetPools_loop split: prod.splits option.splits)
  show "processTargetPools desired applyFn member (scope\<lparr>TargetPools := [pool]\<rparr>) g =
          (Some err, [], g)"
    if "member g pool = Inl err"
    using that by (simp add: processTargetPools_loop)
  show "processTargetPools desired applyFn member (scope\<lparr>TargetPools := xs @ ys\<rparr>) g =
        (case processTargetPools desired applyFn member (scope\<lparr>TargetPools := xs\<rparr>) g of
           (Some e, calls, g') \<Rightarrow> (Some e, calls, g')
         | (None, calls, g') \<Rightarrow>
             (case processTargetPools desired applyFn member (scope\<lparr>TargetPools := ys\<rparr>) g' of
                (e', calls', g'') \<Rightarrow> (e', calls @ calls', g'')))"
    by (simp add: processTargetPools_loop targetPoolsLoop_append
             split: prod.splits option.splits)
  show "fst (processTargetPools desired applyFn member scope g) = None"
    if "\<forall>h. \<forall>p \<in> set (TargetPools scope).
           (\<exists>b. member h p = Inr b) \<and> (\<forall>ref. fst (applyFn p ref h) = None)"
    unfolding processTargetPools_loop using that by (intro targetPoolsLoop_nil) auto
next
  assume eff: "\<forall>h. \<forall>p \<in> set (TargetPools scope).
           (\<exists>b. member h p = Inr b)
           \<and> (\<forall>ref. fst (applyFn p ref h) = None
                 \<and> (\<forall>x. member (snd (applyFn p ref h)) x =
                          (if x = p then Inr desired else member h x)))"
  show "fst (processTargetPools desired applyFn member scope g) = None"
    unfolding processTargetPools_loop using eff by (intro targetPoolsLoop_nil) auto
  have "(\<forall>x. count_list (fst (snd (targetPoolsLoop desired applyFn member
                 (fmtInstanceSelfLink (ProjectID scope) (Zone scope) (MachineName scope))
                 (TargetPools scope) g))) x =
             (if x \<in> set (TargetPools scope) \<and> member g x = Inr (\<not> desired) then 1 else 0))
       \<and> (\<forall>x. member (snd (snd (targetPoolsLoop desired applyFn member
                 (fmtInstanceSelfLink (ProjectID scope) (Zone scope) (MachineName scope))
                 (TargetPools scope) g))) x =
             (if x \<in> set (TargetPools scope) then Inr desired else member g x))"
    using eff by (intro targetPoolsLoop_once) auto
  then show "\<forall>x. count_list (fst (snd (processTargetPools desired applyFn member scope g))) x =
                  (if x \<in> set (TargetPools scope) \<and> member g x = Inr (\<not> desired)
                   then 1 else 0)"
    unfolding processTargetPools_loop by (elim conjE)
qed

theorem processTargetPools_applies_on_disagreement_witness:
  "fst (processTargetPools True (\<lambda>pool ref h. (None, pool # h)) (\<lambda>h pool. Inr (pool \<in> set h))
      \<lparr>MachineName = ''testInstance'', Labels = Map.empty, ProjectID = ''testProject'',
        Zone = ''zone1'', TargetPools = [''pool1'', ''pool2'', ''pool1''],
        ProviderConditions = []\<rparr> [''pool2'']) = None
   \<and> count_list
       (fst (snd (processTargetPools True (\<lambda>pool ref h. (None, pool # h))
          (\<lambda>h pool. Inr (pool \<in> set h))
          \<lparr>MachineName = ''testInstance'', Labels = Map.empty, ProjectID = ''testProject'',
            Zone = ''zone1'', TargetPools = [''pool1'', ''pool2'', ''pool1''],
            ProviderConditions = []\<rparr> [''pool2''])))
       ''pool1'' = 1
   \<and> count_list
       (fst (snd (processTargetPools True (\<lambda>pool ref h. (None, pool # h))
          (\<lambda>h pool. Inr (pool \<in> set h))
          \<lparr>MachineName = ''testInstance'', Labels = Map.empty, ProjectID = ''testProject'',
            Zone = ''zone1'', TargetPools = [''pool1'', ''pool2'', ''pool1''],
            ProviderConditions = []\<rparr> [''pool2''])))
       ''pool2'' = 0
   \<and> processTargetPools True (\<lambda>pool ref h. (None, pool # h)) (\<lambda>h pool. Inr (pool \<in> set h))
      \<lparr>MachineName = ''testInstance'', Labels = Map.empty, ProjectID = ''testProject'',
        Zone = ''zone1'', TargetPools = [], ProviderConditions = []\<rparr> [''pool2'']
     = (None, [], [''pool2''])
   \<and> processTargetPools True (\<lambda>pool ref h. (None, pool # h)) (\<lambda>h pool. Inr (pool \<in> set h))
      \<lparr>MachineName = ''testInstance'', Labels = Map.empty, ProjectID = ''testProject'',
        Zone = ''zone1'', TargetPools = [''pool2''], ProviderConditions = []\<rparr> [''pool2'']
     = (None, [], [''pool2''])
   \<and> processTargetPools True (\<lambda>pool ref h. (None, pool # h)) (\<lambda>h pool. Inr (pool \<in> set h))
      \<lparr>MachineName = ''testInstance'', Labels = Map.empty, ProjectID = ''testProject'',
        Zone = ''zone1'', TargetPools = [''pool1''], ProviderConditions = []\<rparr> [''pool2'']
     = (None, [''pool1''], [''pool1'', ''pool2''])
   \<and> processTargetPools True (\<lambda>pool ref h. (None, pool # h))
      (\<lambda>h pool. Inl (GatewayError ''a GCP error''))
      \<lparr>MachineName = ''testInstance'', Labels = Map.empty, ProjectID = ''testProject'',
        Zone = ''zone1'', TargetPools = [''pool1''], ProviderConditions = []\<rparr> [''pool2'']
     = (Some (GatewayError ''a GCP error''), [], [''pool2''])"
proof -
  let ?add = "\<lambda>(pool::string) (ref::string) (h::string list).
                (None :: reconcileError option, pool # h)"
  let ?member = "\<lambda>(h::string list) (pool::string). (Inr (pool \<in> set h) :: reconcileError + bool)"
  let ?scope = "\<lparr>MachineName = ''testInstance'', Labels = Map.empty, ProjectID = ''testProject'',
        Zone = ''zone1'', TargetPools = [''pool1'', ''pool2'', ''pool1''],
        ProviderConditions = []\<rparr>"
  let ?unset = "\<lparr>MachineName = ''testInstance'', Labels = Map.empty, ProjectID = ''testProject'',
        Zone = ''zone1'', TargetPools = [], ProviderConditions = []\<rparr>"
  let ?r = "processTargetPools True ?add ?member ?scope [''pool2'']"
  have eff: "\<forall>h. \<forall>p \<in> set (TargetPools ?scope).
           (\<exists>b. ?member h p = Inr b)
           \<and> (\<forall>ref. fst (?add p ref h) = None
                 \<and> (\<forall>x. ?member (snd (?add p ref h)) x =
                          (if x = p then Inr True else ?member h x)))"
    by auto
  note pools = processTargetPools_applies_on_disagreement
    [of ?scope True ?add ?member "[''pool2'']" "''pool1''" "GatewayError ''a GCP error''" "[]" "[]"]
  from pools have "(\<forall>h. \<forall>p \<in> set (TargetPools ?scope).
           (\<exists>b. ?member h p = Inr b)
           \<and> (\<forall>ref. fst (?add p ref h) = None
                 \<and> (\<forall>x. ?member (snd (?add p ref h)) x =
                          (if x = p then Inr True else ?member h x))))
        \<longrightarrow> fst ?r = None
            \<and> (\<forall>x. count_list (fst (snd ?r)) x =
                  (if x \<in> set (TargetPools ?scope) \<and> ?member [''pool2''] x = Inr (\<not> True)
                   then 1 else 0))"
    by (elim conjE)
  with eff have once: "fst ?r = None
            \<and> (\<forall>x. count_list (fst (snd ?r)) x =
                  (if x \<in> set (TargetPools ?scope) \<and> ?member [''pool2''] x = Inr (\<not> True)
                   then 1 else 0))"
    by (rule rev_mp)
  then have nil: "fst ?r = None" by (elim conjE)
  from once have "count_list (fst (snd ?r)) ''pool1'' =
      (if ''pool1'' \<in> set (TargetPools ?scope) \<and> ?member [''pool2''] ''pool1'' = Inr (\<not> True)
       then 1 else 0)"
    by (elim conjE) (erule allE)
  then have first: "count_list (fst (snd ?r)) ''pool1'' = 1" by simp
  from once have "count_list (fst (snd ?r)) ''pool2'' =
      (if ''pool2'' \<in> set (TargetPools ?scope) \<and> ?member [''pool2''] ''pool2'' = Inr (\<not> True)
       then 1 else 0)"
    by (elim conjE) (erule allE)
  then have second: "count_list (fst (snd ?r)) ''pool2'' = 0" by simp
  have empty: "processTargetPools True ?add ?member ?unset [''pool2''] = (None, [], [''pool2''])"
    by (rule mp [OF conjunct1 [OF processTargetPools_applies_on_disagreement
          [of ?unset True ?add ?member "[''pool2'']" "''pool1''" "GatewayError ''a GCP error''" "[]" "[]"]]])
       simp
  let ?down = "\<lambda>(h::string list) (pool::string).
                 (Inl (GatewayError ''a GCP error'') :: reconcileError + bool)"
  note present = processTargetPools_applies_on_disagreement
    [of ?unset True ?add ?member "[''pool2'']" "''pool2''" "GatewayError ''a GCP error''" "[]" "[]"]
  have "?member [''pool2''] ''pool2'' = Inr True" by simp
  with present
  have agree: "processTargetPools True ?add ?member (?unset\<lparr>TargetPools := [''pool2'']\<rparr>)
      [''pool2''] = (None, [], [''pool2''])"
    by (elim conjE) (erule (1) mp)
  note absent = processTargetPools_applies_on_disagreement
    [of ?unset True ?add ?member "[''pool2'']" "''pool1''" "GatewayError ''a GCP error''" "[]" "[]"]
  have "?member [''pool2''] ''pool1'' = Inr (\<not> True)" by simp
  with absent
  have "processTargetPools True ?add ?member (?unset\<lparr>TargetPools := [''pool1'']\<rparr>) [''pool2'']
      = (fst (?add ''pool1''
                (fmtInstanceSelfLink (ProjectID ?unset) (Zone ?unset) (MachineName ?unset))
                [''pool2'']),
         [''pool1''],
         snd (?add ''pool1''
                (fmtInstanceSelfLink (ProjectID ?unset) (Zone ?unset) (MachineName ?unset))
                [''pool2'']))"
    by (elim conjE) (erule (1) mp)
  then have disagree: "processTargetPools True ?add ?member
      (?unset\<lparr>TargetPools := [''pool1'']\<rparr>) [''pool2''] = (None, [''pool1''], [''pool1'', ''pool2''])"
    by simp
  note failing = processTargetPools_applies_on_disagreement
    [of ?unset True ?add ?down "[''pool2'']" "''pool1''" "GatewayError ''a GCP error''" "[]" "[]"]
  have "?down [''pool2''] ''pool1'' = Inl (GatewayError ''a GCP error'')" by simp
  with failing
  have failed: "processTargetPools True ?add ?down (?unset\<lparr>TargetPools := [''pool1'']\<rparr>)
      [''pool2''] = (Some (GatewayError ''a GCP error''), [], [''pool2''])"
    by (elim conjE) (erule (1) mp)
  from nil first second empty agree disagree failed show ?thesis by simp
qed

text \<open>
  The claim C7 as it is written fails in two ways. When \<open>applyFn\<close> returns an error the
  loop stops, and \<open>applyFn\<close> is not invoked for a later pool although its membership
  disagrees. And with an \<open>applyFn\<close> that leaves the membership as it is, as the tracker of
  the test does, a pool configured twice has \<open>applyFn\<close> invoked twice.
\<close>

theorem processTargetPools_not_once_per_pool:
  "processTargetPools True
      (\<lambda>pool ref h. if pool = ''pool1'' then (Some (GatewayError ''a GCP error''), h)
                     else (None, pool # h))
      (\<lambda>h pool. Inr (pool \<in> set h))
      \<lparr>MachineName = ''testInstance'', Labels = Map.empty, ProjectID = ''testProject'',
        Zone = ''zone1'', TargetPools = [''pool1'', ''pool2''], ProviderConditions = []\<rparr>
      []
     = (Some (GatewayError ''a GCP error''), [''pool1''], [])
   \<and> processTargetPools True (\<lambda>pool ref h. (None, h)) (\<lambda>h pool. Inr (pool \<in> set h))
      \<lparr>MachineName = ''testInstance'', Labels = Map.empty, ProjectID = ''testProject'',
        Zone = ''zone1'', TargetPools = [''pool1'', ''pool1''], ProviderConditions = []\<rparr>
      []
     = (None, [''pool1'', ''pool1''], [])"
  by (simp add: processTargetPools_def)

subsection \<open>Creating the instance\<close>

lemma find_setCondition:
  "find (\<lambda>x. condType x = condType c) (setCondition c cs) = Some c"
  by (induction cs) auto

lemma createdCondition_set:
  "condType c = MachineCreated K \<Longrightarrow> createdCondition K (setCondition c cs) = Some c"
  using find_setCondition [of c cs] by (simp add: createdCondition_def)

lemma validateMachine_fails:
  "(\<exists>pool \<in> set (TargetPools scope). pool = []) \<or> Labels scope MachineClusterIDLabel = None
     \<or> Labels scope MachineClusterIDLabel = Some [] \<longleftrightarrow> validateMachine scope \<noteq> None"
  by (auto simp: validateMachine_def split: option.splits)

text \<open>
  C5. When the spec is valid, the user data resolves and the gateway's insert fails with
  a provider API error (a status code and a text), \<open>create\<close> returns a permanent
  configuration error carrying that code, whose message ends with the provider's text,
  not a transient error; the instance was handed to the gateway once; and the
  machine-created condition is False with the creation-failed reason and that text.
\<close>

theorem create_api_error_is_permanent:
  assumes "validateMachine scope = None"
      and "userData = Inr blob"
      and "InstancesInsert (build scope blob) = APIError code errText"
  shows "createErr (create K userData build InstancesInsert scope) =
           Some (PermanentConfigurationError code (''error launching instance: '' @ errText))
       \<and> (\<forall>t. createErr (create K userData build InstancesInsert scope) \<noteq> Some (TransientError t))
       \<and> inserted (create K userData build InstancesInsert scope) = [build scope blob]
       \<and> createdCondition K (conditionsAfter (create K userData build InstancesInsert scope)) =
           Some \<lparr>condType = MachineCreated K, condStatus = False,
                  condReason = machineCreationFailedReason K, condMessage = errText\<rparr>"
  using assms by (simp add: create_def createdCondition_set)

theorem create_api_error_is_permanent_witness:
  "createErr
     (create
        \<lparr>MachineCreated = ''MachineCreated'',
          machineCreationSucceedReason = ''MachineCreationSucceeded'',
          machineCreationSucceedMessage = ''Machine successfully created'',
          machineCreationFailedReason = ''MachineCreationFailed'',
          machineValidationFailedReason = ''MachineValidationFailed''\<rparr>
        (Inr '''') (\<lambda>scope blob. MachineName scope)
        (\<lambda>instance. APIError 400 ''googleapi: Error 400: error'')
        \<lparr>MachineName = ''machine-1'',
          Labels = [MachineClusterIDLabel \<mapsto> ''CLUSTERID''],
          ProjectID = ''project'', Zone = ''zone1'', TargetPools = [],
          ProviderConditions = []\<rparr>)
   = Some (PermanentConfigurationError 400
       ''error launching instance: googleapi: Error 400: error'')
   \<and> createdCondition
       \<lparr>MachineCreated = ''MachineCreated'',
         machineCreationSucceedReason = ''MachineCreationSucceeded'',
         machineCreationSucceedMessage = ''Machine successfully created'',
         machineCreationFailedReason = ''MachineCreationFailed'',
         machineValidationFailedReason = ''MachineValidationFailed''\<rparr>
       (conditionsAfter
         (create
            \<lparr>MachineCreated = ''MachineCreated'',
              machineCreationSucceedReason = ''MachineCreationSucceeded'',
              machineCreationSucceedMessage = ''Machine successfully created'',
              machineCreationFailedReason = ''MachineCreationFailed'',
              machineValidationFailedReason = ''MachineValidationFailed''\<rparr>
            (Inr '''') (\<lambda>scope blob. MachineName scope)
            (\<lambda>instance. APIError 400 ''googleapi: Error 400: error'')
            \<lparr>MachineName = ''machine-1'',
              Labels = [MachineClusterIDLabel \<mapsto> ''CLUSTERID''],
              ProjectID = ''project'', Zone = ''zone1'', TargetPools = [],
              ProviderConditions = []\<rparr>))
   = Some \<lparr>condType = ''MachineCreated'', condStatus = False,
            condReason = ''MachineCreationFailed'',
            condMessage = ''googleapi: Error 400: error''\<rparr>"
proof -
  let ?K = "\<lparr>MachineCreated = ''MachineCreated'',
          machineCreationSucceedReason = ''MachineCreationSucceeded'',
          machineCreationSucceedMessage = ''Machine successfully created'',
          machineCreationFailedReason = ''MachineCreationFailed'',
          machineValidationFailedReason = ''MachineValidationFailed''\<rparr>"
  let ?scope = "\<lparr>MachineName = ''machine-1'',
          Labels = [MachineClusterIDLabel \<mapsto> ''CLUSTERID''],
          ProjectID = ''project'', Zone = ''zone1'', TargetPools = [],
          ProviderConditions = []\<rparr>"
  let ?build = "\<lambda>(scope::machineScope) (blob::string). MachineName scope"
  let ?gateway = "\<lambda>instance::string. APIError 400 ''googleapi: Error 400: error''"
  have valid: "validateMachine ?scope = None"
    by (simp add: validateMachine_def)
  have blob: "(Inr '''' :: reconcileError + string) = Inr ''''" by simp
  have api: "?gateway (?build ?scope '''') = APIError 400 ''googleapi: Error 400: error''"
    by simp
  from create_api_error_is_permanent [of ?scope "Inr ''''" "''''" ?gateway ?build, OF valid blob api,
      of ?K]
  show ?thesis by simp
qed

text \<open>
  C6. When some configured target pool name is empty, or the cluster-id label is absent
  or empty, \<open>create\<close> returns a validation error, hands nothing to the gateway, and the
  machine-created condition is False with the validation reason.
\<close>

theorem create_validation_failure_is_terminal:
  assumes "(\<exists>pool \<in> set (TargetPools scope). pool = [])
             \<or> Labels scope MachineClusterIDLabel = None
             \<or> Labels scope MachineClusterIDLabel = Some []"
  shows "(\<exists>msg. createErr (create K userData build InstancesInsert scope) = Some (ValidationError msg))
       \<and> inserted (create K userData build InstancesInsert scope) = []
       \<and> (\<exists>msg. createdCondition K (conditionsAfter (create K userData build InstancesInsert scope)) =
             Some \<lparr>condType = MachineCreated K, condStatus = False,
                    condReason = machineValidationFailedReason K, condMessage = msg\<rparr>)"
proof -
  from assms obtain msg where "validateMachine scope = Some msg"
    using validateMachine_fails [of scope] by auto
  then show ?thesis by (simp add: create_def createdCondition_set)
qed

theorem create_validation_failure_is_terminal_witness:
  "inserted
     (create
        \<lparr>MachineCreated = ''MachineCreated'',
          machineCreationSucceedReason = ''MachineCreationSucceeded'',
          machineCreationSucceedMessage = ''Machine successfully created'',
          machineCreationFailedReason = ''MachineCreationFailed'',
          machineValidationFailedReason = ''MachineValidationFailed''\<rparr>
        (Inr '''') (\<lambda>scope blob. MachineName scope) (\<lambda>instance. InsertOk)
        \<lparr>MachineName = ''machine-1'',
          Labels = [MachineClusterIDLabel \<mapsto> ''CLUSTERID''],
          ProjectID = ''project'', Zone = ''zone1'', TargetPools = [''''],
          ProviderConditions = []\<rparr>) = []
   \<and> (\<exists>msg. createErr
       (create
          \<lparr>MachineCreated = ''MachineCreated'',
            machineCreationSucceedReason = ''MachineCreationSucceeded'',
            machineCreationSucceedMessage = ''Machine successfully created'',
            machineCreationFailedReason = ''MachineCreationFailed'',
            machineValidationFailedReason = ''MachineValidationFailed''\<rparr>
          (Inr '''') (\<lambda>scope blob. MachineName scope) (\<lambda>instance. InsertOk)
          \<lparr>MachineName = ''machine-1'',
            Labels = [MachineClusterIDLabel \<mapsto> ''''],
            ProjectID = ''project'', Zone = ''zone1'', TargetPools = [],
            ProviderConditions = []\<rparr>) = Some (ValidationError msg))"
proof -
  let ?K = "\<lparr>MachineCreated = ''MachineCreated'',
          machineCreationSucceedReason = ''MachineCreationSucceeded'',
          machineCreationSucceedMessage = ''Machine successfully created'',
          machineCreationFailedReason = ''MachineCreationFailed'',
          machineValidationFailedReason = ''MachineValidationFailed''\<rparr>"
  let ?pools = "\<lparr>MachineName = ''machine-1'',
          Labels = [MachineClusterIDLabel \<mapsto> ''CLUSTERID''],
          ProjectID = ''project'', Zone = ''zone1'', TargetPools = [''''],
          ProviderConditions = []\<rparr>"
  let ?label = "\<lparr>MachineName = ''machine-1'',
            Labels = [MachineClusterIDLabel \<mapsto> ''''],
            ProjectID = ''project'', Zone = ''zone1'', TargetPools = [],
            ProviderConditions = []\<rparr>"
  let ?build = "\<lambda>(scope::machineScope) (blob::string). MachineName scope"
  let ?gateway = "\<lambda>instance::string. InsertOk"
  have pools: "(\<exists>pool \<in> set (TargetPools ?pools). pool = [])
      \<or> Labels ?pools MachineClusterIDLabel = None
      \<or> Labels ?pools MachineClusterIDLabel = Some []"
    by simp
  have label: "(\<exists>pool \<in> set (TargetPools ?label). pool = [])
      \<or> Labels ?label MachineClusterIDLabel = None
      \<or> Labels ?label MachineClusterIDLabel = Some []"
    by simp
  from create_validation_failure_is_terminal [OF pools, of ?K "Inr ''''" ?build ?gateway]
  have first: "inserted (create ?K (Inr '''') ?build ?gateway ?pools) = []"
    by (elim conjE)
  from create_validation_failure_is_terminal [OF label, of ?K "Inr ''''" ?build ?gateway]
  have second: "\<exists>msg. createErr (create ?K (Inr '''') ?build ?gateway ?label) =
      Some (ValidationError msg)"
    by (elim conjE)
  from first second show ?thesis by (intro conjI)
qed

end
